theory Spec2Isabelle
  imports Main
begin

section \<open>Python strings, integers and exceptions\<close>

text \<open>
  Strings are lists of characters; the model covers ASCII text, which is what the
  keyword, duration and clock formats of the program are written in.  An exception that
  leaves a function is a value of \<open>py_error\<close>.
\<close>

datatype py_error = ValueError | KeyError | OverflowError

text \<open>\<^verbatim>\<open>str.isspace\<close> on ASCII; \<^verbatim>\<open>str.strip()\<close> and the regular expression
  class \<^verbatim>\<open>\s\<close> use the same set.\<close>

definition isspace :: "char \<Rightarrow> bool" where
  "isspace c = (c \<in> set [CHR 0x09, CHR 0x0A, CHR 0x0B, CHR 0x0C, CHR 0x0D,
                          CHR 0x1C, CHR 0x1D, CHR 0x1E, CHR 0x1F, CHR 0x20])"

text \<open>The C \<^verbatim>\<open>isspace\<close> set, which is what \<^verbatim>\<open>int(str)\<close> strips.\<close>

definition c_isspace :: "char \<Rightarrow> bool" where
  "c_isspace c = (c \<in> set [CHR 0x09, CHR 0x0A, CHR 0x0B, CHR 0x0C, CHR 0x0D, CHR 0x20])"

definition isdigit :: "char \<Rightarrow> bool" where
  "isdigit c = (c \<in> set ''0123456789'')"

definition digit_val :: "char \<Rightarrow> nat" where
  "digit_val c =
     (case map_of (zip ''0123456789'' [0, 1, 2, 3, 4, 5, 6, 7, 8, 9]) c of
        None \<Rightarrow> 0 | Some n \<Rightarrow> n)"

definition py_strip :: "string \<Rightarrow> string" where
  "py_strip s = rev (dropWhile isspace (rev (dropWhile isspace s)))"

text \<open>\<^verbatim>\<open>s.split(sep)\<close> for a one-character separator: never an empty list.\<close>

fun py_split :: "char \<Rightarrow> string \<Rightarrow> string list" where
  "py_split sep [] = [[]]"
| "py_split sep (c # cs) =
     (if c = sep then [] # py_split sep cs
      else (case py_split sep cs of [] \<Rightarrow> [[c]] | t # ts \<Rightarrow> (c # t) # ts))"

text \<open>\<^verbatim>\<open>str.lower()\<close> on ASCII letters.\<close>

definition lower_char :: "char \<Rightarrow> char" where
  "lower_char c =
     (case List.find (\<lambda>p. fst p = c)
             (zip ''ABCDEFGHIJKLMNOPQRSTUVWXYZ'' ''abcdefghijklmnopqrstuvwxyz'') of
        None \<Rightarrow> c | Some p \<Rightarrow> snd p)"

definition py_lower :: "string \<Rightarrow> string" where
  "py_lower s = map lower_char s"

text \<open>\<^verbatim>\<open>needle in hay\<close> for strings: \<open>needle\<close> occurs as a contiguous run.\<close>

definition startswith :: "string \<Rightarrow> string \<Rightarrow> bool" where
  "startswith hay needle = (take (length needle) hay = needle)"

fun py_in :: "string \<Rightarrow> string \<Rightarrow> bool" where
  "py_in needle [] = (needle = [])"
| "py_in needle (c # cs) = (startswith (c # cs) needle \<or> py_in needle cs)"

subsection \<open>\<^verbatim>\<open>int(str)\<close>\<close>

text \<open>
  \<^verbatim>\<open>int(s)\<close> in base 10: surrounding C whitespace is dropped, one sign is allowed, then
  at least one digit, with single underscores allowed between digits.  A literal of more
  than \<open>int_max_str_digits\<close> digits is refused (the interpreter's default limit).
  Everything else raises \<^verbatim>\<open>ValueError\<close>.
\<close>

definition int_max_str_digits :: nat where
  "int_max_str_digits = 4300"

fun int_digits :: "string \<Rightarrow> nat \<Rightarrow> nat option" where
  "int_digits [] acc = Some acc"
| "int_digits [c] acc = (if isdigit c then Some (10 * acc + digit_val c) else None)"
| "int_digits (c # d # ds) acc =
     (if isdigit c then int_digits (d # ds) (10 * acc + digit_val c)
      else if c = CHR ''_'' \<and> isdigit d then int_digits ds (10 * acc + digit_val d)
      else None)"

definition int_body :: "string \<Rightarrow> nat option" where
  "int_body b =
     (case b of [] \<Rightarrow> None
      | c # cs \<Rightarrow>
          if \<not> isdigit c then None
          else if int_max_str_digits < length (filter isdigit b) then None
          else int_digits cs (digit_val c))"

definition py_int :: "string \<Rightarrow> py_error + int" where
  "py_int s =
     (let t = rev (dropWhile c_isspace (rev (dropWhile c_isspace s)))
      in case t of
           [] \<Rightarrow> Inl ValueError
         | c # cs \<Rightarrow>
             if c = CHR ''-'' then
               (case int_body cs of None \<Rightarrow> Inl ValueError | Some n \<Rightarrow> Inr (- int n))
             else if c = CHR ''+'' then
               (case int_body cs of None \<Rightarrow> Inl ValueError | Some n \<Rightarrow> Inr (int n))
             else
               (case int_body t of None \<Rightarrow> Inl ValueError | Some n \<Rightarrow> Inr (int n)))"

text \<open>\<^verbatim>\<open>list(map(int, tokens))\<close>: the first token that is not an integer raises.\<close>

fun map_int :: "string list \<Rightarrow> py_error + int list" where
  "map_int [] = Inr []"
| "map_int (t # ts) =
     (case py_int t of
        Inl e \<Rightarrow> Inl e
      | Inr n \<Rightarrow> (case map_int ts of Inl e \<Rightarrow> Inl e | Inr ns \<Rightarrow> Inr (n # ns)))"

section \<open>Time utilities\<close>

subsection \<open>\<^verbatim>\<open>parse_duration_string\<close>\<close>

text \<open>
  The argument is a string (the text of a tree column), so the \<^verbatim>\<open>isinstance\<close> guard
  never fires.  The conversion of the tokens stands before the \<^verbatim>\<open>try\<close> block: its
  \<^verbatim>\<open>ValueError\<close> is not caught.  Inside the block nothing can raise.  The result is
  \<open>Inl e\<close> for an exception, \<open>Inr None\<close> for Python's \<^verbatim>\<open>None\<close>, \<open>Inr (Some n)\<close>
  for a number of seconds.
\<close>

definition parse_duration_string :: "string \<Rightarrow> py_error + int option" where
  "parse_duration_string duration_str =
     (case map_int (py_split CHR '':'' duration_str) of
        Inl e \<Rightarrow> Inl e
      | Inr parts \<Rightarrow>
          (case parts of
             [minutes, seconds] \<Rightarrow>
               if 0 \<le> seconds \<and> seconds < 60 then Inr (Some (minutes * 60 + seconds))
               else Inr None
           | [hours, minutes, seconds] \<Rightarrow>
               if 0 \<le> minutes \<and> minutes < 60 \<and> 0 \<le> seconds \<and> seconds < 60
               then Inr (Some (hours * 3600 + minutes * 60 + seconds))
               else Inr None
           | _ \<Rightarrow> Inr None))"

subsection \<open>\<^verbatim>\<open>datetime.strptime\<close> for the four clock formats\<close>

text \<open>
  \<^verbatim>\<open>strptime\<close> turns a format into a regular expression, matched case-insensitively
  from the start of the text: \<^verbatim>\<open>%I\<close> is \<^verbatim>\<open>1[0-2]|0[1-9]|[1-9]\<close>, \<^verbatim>\<open>%H\<close> is
  \<^verbatim>\<open>2[0-3]|[0-1]\d|\d\<close>, \<^verbatim>\<open>%M\<close> is \<^verbatim>\<open>[0-5]\d|\d\<close>, \<^verbatim>\<open>%S\<close> is
  \<^verbatim>\<open>6[0-1]|[0-5]\d|\d\<close>, \<^verbatim>\<open>%p\<close> is \<^verbatim>\<open>am|pm\<close> (English \<^verbatim>\<open>LC_TIME\<close>, which the
  program selects at start-up), and a blank of the format is \<^verbatim>\<open>\s+\<close>.  A matcher
  returns every way to match a prefix, in the order in which a backtracking engine tries
  them, each with the text that is left; the first complete way is the match.
\<close>

type_synonym 'a matcher = "string \<Rightarrow> ('a \<times> string) list"

definition two_digits :: "(char \<Rightarrow> bool) \<Rightarrow> (char \<Rightarrow> bool) \<Rightarrow> nat matcher" where
  "two_digits p q s =
     (case s of
        a # b # r \<Rightarrow> if p a \<and> q b then [(10 * digit_val a + digit_val b, r)] else []
      | _ \<Rightarrow> [])"

definition one_digit :: "(char \<Rightarrow> bool) \<Rightarrow> nat matcher" where
  "one_digit p s = (case s of a # r \<Rightarrow> if p a then [(digit_val a, r)] else [] | [] \<Rightarrow> [])"

definition re_I :: "nat matcher" where
  "re_I s = two_digits (\<lambda>c. c = CHR ''1'') (\<lambda>c. c \<in> set ''012'') s
          @ two_digits (\<lambda>c. c = CHR ''0'') (\<lambda>c. c \<in> set ''123456789'') s
          @ one_digit (\<lambda>c. c \<in> set ''123456789'') s"

definition re_H :: "nat matcher" where
  "re_H s = two_digits (\<lambda>c. c = CHR ''2'') (\<lambda>c. c \<in> set ''0123'') s
          @ two_digits (\<lambda>c. c \<in> set ''01'') isdigit s
          @ one_digit isdigit s"

definition re_M :: "nat matcher" where
  "re_M s = two_digits (\<lambda>c. c \<in> set ''012345'') isdigit s @ one_digit isdigit s"

definition re_S :: "nat matcher" where
  "re_S s = two_digits (\<lambda>c. c = CHR ''6'') (\<lambda>c. c \<in> set ''01'') s
          @ two_digits (\<lambda>c. c \<in> set ''012345'') isdigit s
          @ one_digit isdigit s"

text \<open>\<^verbatim>\<open>am|pm\<close>, ignoring case; the value says whether it is \<^verbatim>\<open>pm\<close>.\<close>

definition re_p :: "bool matcher" where
  "re_p s =
     (case s of
        a # b # r \<Rightarrow>
          if lower_char a = CHR ''a'' \<and> lower_char b = CHR ''m'' then [(False, r)]
          else if lower_char a = CHR ''p'' \<and> lower_char b = CHR ''m'' then [(True, r)]
          else []
      | _ \<Rightarrow> [])"

definition re_colon :: "unit matcher" where
  "re_colon s = (case s of a # r \<Rightarrow> if a = CHR '':'' then [((), r)] else [] | [] \<Rightarrow> [])"

text \<open>\<^verbatim>\<open>\s+\<close> is greedy: the longest run first, then shorter ones.\<close>

fun re_spaces :: "unit matcher" where
  "re_spaces [] = []"
| "re_spaces (c # cs) = (if isspace c then re_spaces cs @ [((), cs)] else [])"

text \<open>The hour of a 12-hour clock with its \<^verbatim>\<open>am\<close>/\<^verbatim>\<open>pm\<close> mark, as \<^verbatim>\<open>_strptime\<close>
  converts it.\<close>

definition hour_of_12 :: "nat \<Rightarrow> bool \<Rightarrow> nat" where
  "hour_of_12 h pm = (if pm then (if h \<noteq> 12 then h + 12 else h) else (if h = 12 then 0 else h))"

record py_time =
  hour :: nat
  minute :: nat
  second :: nat

datatype clock_format = Fmt_IMSp | Fmt_IMp | Fmt_HMS | Fmt_HM

fun format_matches :: "clock_format \<Rightarrow> py_time matcher" where
  "format_matches Fmt_IMSp s =
     [(\<lparr>hour = hour_of_12 h pm, minute = m, second = sec\<rparr>, r7).
        (h, r1) \<leftarrow> re_I s, (u, r2) \<leftarrow> re_colon r1, (m, r3) \<leftarrow> re_M r2,
        (v, r4) \<leftarrow> re_colon r3, (sec, r5) \<leftarrow> re_S r4, (w, r6) \<leftarrow> re_spaces r5,
        (pm, r7) \<leftarrow> re_p r6]"
| "format_matches Fmt_IMp s =
     [(\<lparr>hour = hour_of_12 h pm, minute = m, second = 0\<rparr>, r5).
        (h, r1) \<leftarrow> re_I s, (u, r2) \<leftarrow> re_colon r1, (m, r3) \<leftarrow> re_M r2,
        (w, r4) \<leftarrow> re_spaces r3, (pm, r5) \<leftarrow> re_p r4]"
| "format_matches Fmt_HMS s =
     [(\<lparr>hour = h, minute = m, second = sec\<rparr>, r5).
        (h, r1) \<leftarrow> re_H s, (u, r2) \<leftarrow> re_colon r1, (m, r3) \<leftarrow> re_M r2,
        (v, r4) \<leftarrow> re_colon r3, (sec, r5) \<leftarrow> re_S r4]"
| "format_matches Fmt_HM s =
     [(\<lparr>hour = h, minute = m, second = 0\<rparr>, r3).
        (h, r1) \<leftarrow> re_H s, (u, r2) \<leftarrow> re_colon r1, (m, r3) \<leftarrow> re_M r2]"

text \<open>
  \<^verbatim>\<open>datetime.strptime(text, fmt).time()\<close>: \<^verbatim>\<open>ValueError\<close> when the text does not
  match, when text is left after the match, and when the seconds are 60 or 61 (the
  expression admits them, the \<^verbatim>\<open>datetime\<close> constructor does not).
\<close>

definition strptime_time :: "clock_format \<Rightarrow> string \<Rightarrow> py_error + py_time" where
  "strptime_time fmt s =
     (case format_matches fmt s of
        [] \<Rightarrow> Inl ValueError
      | (t, rest) # _ \<Rightarrow>
          if rest \<noteq> [] then Inl ValueError
          else if 59 < second t then Inl ValueError
          else Inr t)"

subsection \<open>\<^verbatim>\<open>parse_backtime_string\<close>\<close>

text \<open>The loop over the formats: a \<^verbatim>\<open>ValueError\<close> moves on to the next format.  Both
  the empty guard and the exhausted loop return \<^verbatim>\<open>None\<close>.\<close>

fun try_formats :: "clock_format list \<Rightarrow> string \<Rightarrow> py_time option" where
  "try_formats [] s = None"
| "try_formats (fmt # formats) s =
     (case strptime_time fmt (py_strip s) of
        Inr t \<Rightarrow> Some t
      | Inl e \<Rightarrow> try_formats formats s)"

definition parse_backtime_string :: "string \<Rightarrow> py_time option" where
  "parse_backtime_string bt_str =
     (if bt_str = [] \<or> py_strip bt_str = [] then None
      else try_formats [Fmt_IMSp, Fmt_IMp, Fmt_HMS, Fmt_HM] bt_str)"

subsection \<open>\<^verbatim>\<open>datetime\<close>, \<^verbatim>\<open>timedelta\<close> and \<^verbatim>\<open>strftime\<close>\<close>

text \<open>
  A naive \<^verbatim>\<open>datetime\<close> is the number of microseconds since 0001-01-01 00:00:00 (naive
  values have no time zone and no leap seconds, so the count is linear).  The type ends
  at 9999-12-31 23:59:59.999999; arithmetic that leaves it raises \<^verbatim>\<open>OverflowError\<close>,
  and so does a \<^verbatim>\<open>timedelta\<close> of more than 999999999 days.  A \<^verbatim>\<open>timedelta\<close> is a
  number of microseconds.
\<close>

type_synonym datetime = int

definition us_per_second :: int where
  "us_per_second = 1000000"

definition us_per_day :: int where
  "us_per_day = 86400 * us_per_second"

definition datetime_max :: datetime where
  "datetime_max = 3652059 * us_per_day - 1"

definition valid_datetime :: "datetime \<Rightarrow> bool" where
  "valid_datetime t = (0 \<le> t \<and> t \<le> datetime_max)"

definition timedelta_seconds :: "int \<Rightarrow> py_error + int" where
  "timedelta_seconds n =
     (if n div 86400 < - 999999999 \<or> 999999999 < n div 86400 then Inl OverflowError
      else Inr (n * us_per_second))"

definition datetime_add :: "datetime \<Rightarrow> int \<Rightarrow> py_error + datetime" where
  "datetime_add t delta = (if valid_datetime (t + delta) then Inr (t + delta) else Inl OverflowError)"

text \<open>\<^verbatim>\<open>datetime(now.year, now.month, now.day, t.hour, t.minute, t.second)\<close>\<close>

definition today_at :: "datetime \<Rightarrow> py_time \<Rightarrow> datetime" where
  "today_at now t =
     (now - now mod us_per_day)
       + (int (hour t) * 3600 + int (minute t) * 60 + int (second t)) * us_per_second"

text \<open>\<^verbatim>\<open>.replace(second=0, microsecond=0)\<close>\<close>

definition replace_second_0 :: "datetime \<Rightarrow> datetime" where
  "replace_second_0 t = t - t mod (60 * us_per_second)"

definition hour_of :: "datetime \<Rightarrow> nat" where
  "hour_of t = nat ((t div (3600 * us_per_second)) mod 24)"

definition minute_of :: "datetime \<Rightarrow> nat" where
  "minute_of t = nat ((t div (60 * us_per_second)) mod 60)"

definition second_of :: "datetime \<Rightarrow> nat" where
  "second_of t = nat ((t div us_per_second) mod 60)"

definition digit_char :: "nat \<Rightarrow> char" where
  "digit_char n = ''0123456789'' ! n"

definition two_digit :: "nat \<Rightarrow> string" where
  "two_digit n = [digit_char (n div 10), digit_char (n mod 10)]"

text \<open>\<^verbatim>\<open>%I\<close> and \<^verbatim>\<open>%p\<close> (English \<^verbatim>\<open>LC_TIME\<close>).\<close>

definition hour12 :: "nat \<Rightarrow> nat" where
  "hour12 h = (if h mod 12 = 0 then 12 else h mod 12)"

definition am_pm :: "nat \<Rightarrow> string" where
  "am_pm h = (if h < 12 then ''AM'' else ''PM'')"

text \<open>\<^verbatim>\<open>strftime("%I:%M %p")\<close> and \<^verbatim>\<open>strftime("%I:%M:%S %p")\<close>\<close>

definition strftime_IMp :: "datetime \<Rightarrow> string" where
  "strftime_IMp t =
     two_digit (hour12 (hour_of t)) @ '':'' @ two_digit (minute_of t) @ '' '' @ am_pm (hour_of t)"

definition strftime_IMSp :: "datetime \<Rightarrow> string" where
  "strftime_IMSp t =
     two_digit (hour12 (hour_of t)) @ '':'' @ two_digit (minute_of t) @ '':''
       @ two_digit (second_of t) @ '' '' @ am_pm (hour_of t)"

section \<open>Stories and the rundown\<close>

text \<open>
  A story is a dictionary; the record has the keys the program reads and writes.  A key
  that a dictionary may lack is an \<open>option\<close> (a rundown loaded from a file has whatever
  keys the file has, but always \<^verbatim>\<open>title\<close> and \<^verbatim>\<open>source\<close>, without which
  \<^verbatim>\<open>update_rundown_tree\<close> refuses it).
\<close>

record story_data =
  title :: string
  source :: string
  link :: "string option"
  id_key :: "string option"
  summary :: "string option"
  pub_date :: "string option"
  image_url :: "string option"
  category :: "string option"
  rewritten :: "bool option"
  original_summary :: "string option"
  duration :: "string option"
  order_key :: "nat option"
  backtime :: "string option"
  active :: "bool option"
  teleprompter_text :: "string option"
  profile :: "string option"
  style :: "string option"
  tone :: "string option"
  length_key :: "string option"

text \<open>
  A top-level item of the rundown tree: the texts of columns 0 to 4 (title, source,
  duration, backtime, profile), the check box of column 5, and the story dictionary kept
  under \<^verbatim>\<open>Qt.UserRole\<close>.  Every item of the tree carries a dictionary, and no two items
  share one.
\<close>

record tree_item =
  text0 :: string
  text1 :: string
  text2 :: string
  text3 :: string
  text4 :: string
  checked5 :: bool
  data :: story_data

text \<open>
  The application: the rundown tree, the lines of the log, the text of the clock label,
  the guard flag of the scheduler, the message boxes shown so far (by what they report),
  and whether the rundown tab is the current tab.
\<close>

datatype message = Sent_to_Rundown nat | No_New_Articles | No_Selection

record app =
  rundown_tree :: "tree_item list"
  log_output :: "string list"
  rundown_clock_label :: string
  recalculating_backtimes :: bool
  message_boxes :: "message list"
  rundown_tab_current :: bool

section \<open>The backtime scheduler\<close>

text \<open>\<^verbatim>\<open>story_data and story_data.get("active", True)\<close>: the dictionary is never empty.\<close>

definition get_active :: "story_data \<Rightarrow> bool" where
  "get_active d = (case active d of None \<Rightarrow> True | Some b \<Rightarrow> b)"

text \<open>
  First pass: the total (which nothing reads afterwards) and the warnings.  The result
  is the exception, if one was raised, with the total and the log at that point.
\<close>

fun first_pass :: "tree_item list \<Rightarrow> int \<Rightarrow> string list \<Rightarrow> py_error option \<times> int \<times> string list" where
  "first_pass [] total_seconds lines = (None, total_seconds, lines)"
| "first_pass (item # items) total_seconds lines =
     (if get_active (data item) then
        (case parse_duration_string (text2 item) of
           Inl e \<Rightarrow> (Some e, total_seconds, lines)
         | Inr (Some seconds) \<Rightarrow> first_pass items (total_seconds + seconds) lines
         | Inr None \<Rightarrow>
             first_pass items total_seconds
               (lines @ [''Invalid duration format for '' @ [CHR 0x27] @ text0 item @ [CHR 0x27]
                        @ '': '' @ text2 item]))
      else first_pass items total_seconds lines)"

text \<open>
  The end of the show: the backtime text of the last item if it parses (today at that
  time, a day later when that is more than an hour ago), else thirty minutes from now,
  on the minute.  The text \<open>last_item_backtime_str\<close> is empty for an empty tree.
\<close>

definition show_end_time :: "datetime \<Rightarrow> string \<Rightarrow> string list \<Rightarrow> (py_error + datetime) \<times> string list" where
  "show_end_time now last_item_backtime_str lines =
     (let default_end =
            (case datetime_add now (30 * 60 * us_per_second) of
               Inl e \<Rightarrow> Inl e
             | Inr t \<Rightarrow> Inr (replace_second_0 t))
      in if last_item_backtime_str \<noteq> [] then
           (case parse_backtime_string last_item_backtime_str of
              Some parsed_time \<Rightarrow>
                (let t = today_at now parsed_time
                 in if t < now \<and> 3600 * us_per_second < now - t
                    then (datetime_add t us_per_day, lines)
                    else (Inr t, lines))
            | None \<Rightarrow>
                (default_end,
                 lines @ [''Invalid backtime format for last item: '' @ last_item_backtime_str]))
         else (default_end, lines))"

text \<open>
  Second pass, over the items from the last to the first (the argument is the reversed
  tree): the clock goes back by the duration of an active item whose duration parses,
  and the item's column 3 gets the clock at minute precision.
\<close>

definition item_duration_seconds :: "tree_item \<Rightarrow> py_error + int" where
  "item_duration_seconds item =
     (if get_active (data item) then
        (case parse_duration_string (text2 item) of
           Inl e \<Rightarrow> Inl e
         | Inr (Some seconds) \<Rightarrow> Inr seconds
         | Inr None \<Rightarrow> Inr 0)
      else Inr 0)"

text \<open>\<^verbatim>\<open>current_time -= timedelta(seconds=duration_seconds)\<close>\<close>

definition step_back :: "datetime \<Rightarrow> tree_item \<Rightarrow> py_error + datetime" where
  "step_back current_time item =
     (case item_duration_seconds item of
        Inl e \<Rightarrow> Inl e
      | Inr duration_seconds \<Rightarrow>
          (case timedelta_seconds duration_seconds of
             Inl e \<Rightarrow> Inl e
           | Inr delta \<Rightarrow> datetime_add current_time (- delta)))"

fun second_pass :: "tree_item list \<Rightarrow> datetime \<Rightarrow> py_error option \<times> tree_item list \<times> datetime" where
  "second_pass [] current_time = (None, [], current_time)"
| "second_pass (item # items) current_time =
     (case step_back current_time item of
        Inl e \<Rightarrow> (Some e, item # items, current_time)
      | Inr t \<Rightarrow>
          (case second_pass items t of
             (r, items', t') \<Rightarrow> (r, item\<lparr>text3 := strftime_IMp t\<rparr> # items', t')))"

text \<open>
  \<^verbatim>\<open>calculate_backtimes\<close>, with the clock reading \<open>now\<close> of this call.  The result is
  the exception that left the function, if any, and the state.  The guard flag is set
  on entry and cleared by \<^verbatim>\<open>finally\<close> on every path.
\<close>

definition calculate_backtimes :: "datetime \<Rightarrow> app \<Rightarrow> py_error option \<times> app" where
  "calculate_backtimes now st =
     (if recalculating_backtimes st then (None, st)
      else
        (case first_pass (rundown_tree st) 0 (log_output st) of
           (Some e, total_seconds, log1) \<Rightarrow>
             (Some e, st\<lparr>log_output := log1, recalculating_backtimes := False\<rparr>)
         | (None, total_seconds, log1) \<Rightarrow>
             (case show_end_time now
                     (if rundown_tree st = [] then [] else text3 (last (rundown_tree st))) log1 of
                (Inl e, log2) \<Rightarrow>
                  (Some e, st\<lparr>log_output := log2, recalculating_backtimes := False\<rparr>)
              | (Inr end_time, log2) \<Rightarrow>
                  (case second_pass (rev (rundown_tree st)) end_time of
                     (Some e, items, current_time) \<Rightarrow>
                       (Some e, st\<lparr>rundown_tree := rev items, log_output := log2,
                                    recalculating_backtimes := False\<rparr>)
                   | (None, items, current_time) \<Rightarrow>
                       (None, st\<lparr>rundown_tree := rev items, log_output := log2,
                                  rundown_clock_label := ''Backtime: '' @ strftime_IMSp current_time,
                                  recalculating_backtimes := False\<rparr>)))))"

subsection \<open>Showing the rundown tab\<close>



section \<open>The rundown store\<close>

subsection \<open>\<^verbatim>\<open>get_rundown_items\<close> and \<^verbatim>\<open>update_rundown_tree\<close>\<close>





subsection \<open>\<^verbatim>\<open>send_to_rundown\<close>\<close>







subsection \<open>\<^verbatim>\<open>move_rundown_item\<close>\<close>

text \<open>
  The item is named by its row \<open>current_row\<close> (\<^verbatim>\<open>indexOfTopLevelItem\<close>).  The function
  has no \<^verbatim>\<open>return\<close> statement: on every path that does not raise its value is
  \<^verbatim>\<open>None\<close>, which tests false.  In bounds, the item is taken out, a new item is built
  from the dictionary of the old one (a missing key raises \<^verbatim>\<open>KeyError\<close>, after the old
  item is gone), inserted at the new row, and the scheduler runs.
\<close>

definition move_rundown_item :: "datetime \<Rightarrow> nat \<Rightarrow> int \<Rightarrow> app \<Rightarrow> py_error option \<times> app" where
  "move_rundown_item now current_row direction st =
     (let new_row = int current_row + direction
      in if 0 \<le> new_row \<and> new_row < int (length (rundown_tree st)) then
           (let item_data = data (rundown_tree st ! current_row);
                taken = take current_row (rundown_tree st) @ drop (Suc current_row) (rundown_tree st)
            in case (duration item_data, backtime item_data, profile item_data, active item_data) of
                 (Some d, Some b, Some p, Some a) \<Rightarrow>
                   calculate_backtimes now
                     (st\<lparr>rundown_tree :=
                           take (nat new_row) taken
                           @ [\<lparr>text0 = title item_data, text1 = source item_data, text2 = d,
                                text3 = b, text4 = p, checked5 = a, data = item_data\<rparr>]
                           @ drop (nat new_row) taken\<rparr>)
               | _ \<Rightarrow> (Some KeyError, st\<lparr>rundown_tree := taken\<rparr>))
         else (None, st))"

text \<open>
  The value of a call that does not raise.  The body of \<^verbatim>\<open>move_rundown_item\<close> has no
  \<^verbatim>\<open>return\<close> statement, so the value is \<^verbatim>\<open>None\<close> on every path; \<open>py_truth\<close> is
  Python's truth test of a value.
\<close>

datatype py_value = PyNone | PyBool bool

definition py_truth :: "py_value \<Rightarrow> bool" where
  "py_truth v = (case v of PyNone \<Rightarrow> False | PyBool b \<Rightarrow> b)"

definition move_rundown_item_value :: "datetime \<Rightarrow> nat \<Rightarrow> int \<Rightarrow> app \<Rightarrow> py_value option" where
  "move_rundown_item_value now current_row direction st =
     (case fst (move_rundown_item now current_row direction st) of
        None \<Rightarrow> Some PyNone
      | Some e \<Rightarrow> None)"

section \<open>Feed ingestion: the category of a feed\<close>

text \<open>The chain of \<^verbatim>\<open>if\<close>/\<^verbatim>\<open>elif\<close> of \<^verbatim>\<open>PullStoriesWorker.run\<close>.\<close>

definition categorize :: "string \<Rightarrow> string" where
  "categorize feed_name =
     (if py_in ''technology'' (py_lower feed_name) then ''Technology''
      else if py_in ''sports'' (py_lower feed_name) then ''Sports''
      else if py_in ''politics'' (py_lower feed_name) then ''Politics''
      else if py_in ''world'' (py_lower feed_name) \<or> py_in ''international'' (py_lower feed_name)
        then ''World News''
      else if py_in ''business'' (py_lower feed_name) then ''Business''
      else if py_in ''entertainment'' (py_lower feed_name) then ''Entertainment''
      else ''Other'')"

text \<open>
  The rule in the words of the specification: a priority list of keyword groups, each with
  its category; the first group with a keyword in the lowercased name wins.
\<close>

definition keyword_priority :: "(string list \<times> string) list" where
  "keyword_priority =
     [([''technology''], ''Technology''), ([''sports''], ''Sports''),
      ([''politics''], ''Politics''), ([''world'', ''international''], ''World News''),
      ([''business''], ''Business''), ([''entertainment''], ''Entertainment'')]"

definition first_keyword_match :: "string \<Rightarrow> string" where
  "first_keyword_match feed_name =
     (case List.find (\<lambda>(keywords, c). list_ex (\<lambda>k. py_in k (py_lower feed_name)) keywords)
             keyword_priority of
        None \<Rightarrow> ''Other''
      | Some (keywords, c) \<Rightarrow> c)"

section \<open>Notions used to state the properties\<close>

text \<open>An item with its backtime column blanked: what is left is everything of the item
  that the scheduler must not touch.\<close>

definition erase_backtime :: "tree_item \<Rightarrow> tree_item" where
  "erase_backtime item = item\<lparr>text3 := []\<rparr>"


text \<open>
  The columns of an item agree with its dictionary, as \<^verbatim>\<open>update_rundown_tree\<close> builds
  an item from a dictionary with all keys and as \<^verbatim>\<open>handle_rundown_item_changed\<close>
  keeps it when a column is edited.  The \<^verbatim>\<open>backtime\<close> key is only required to exist:
  the scheduler writes column 3 and leaves the key alone.
\<close>

definition in_sync :: "tree_item \<Rightarrow> bool" where
  "in_sync item =
     (text0 item = title (data item) \<and> text1 item = source (data item)
      \<and> duration (data item) = Some (text2 item) \<and> profile (data item) = Some (text4 item)
      \<and> active (data item) = Some (checked5 item) \<and> backtime (data item) \<noteq> None)"


subsection \<open>Concrete inputs\<close>

text \<open>A story as the ingestion produces it, an item of the rundown with a given title,
  duration and backtime, an application state, and 2024-01-15 12:00:00 as the clock.\<close>

definition example_story :: "string \<Rightarrow> string \<Rightarrow> story_data" where
  "example_story t l =
     \<lparr>title = t, source = ''BBC News - World'', link = Some l, id_key = None,
      summary = Some ''Summary'', pub_date = Some ''2024-01-15 11:00'', image_url = None,
      category = Some ''World News'', rewritten = Some False,
      original_summary = Some ''Summary'', duration = None, order_key = None,
      backtime = None, active = None, teleprompter_text = None, profile = None,
      style = None, tone = None, length_key = None\<rparr>"

definition example_item :: "string \<Rightarrow> string \<Rightarrow> string \<Rightarrow> tree_item" where
  "example_item t d b =
     \<lparr>text0 = t, text1 = ''BBC News - World'', text2 = d, text3 = b,
      text4 = ''Default Narrator'', checked5 = True,
      data = (example_story t (''http://example.org/'' @ t))
               \<lparr>id_key := Some t, duration := Some d, order_key := Some 0, backtime := Some b,
                active := Some True, teleprompter_text := Some ''Summary'',
                profile := Some ''Default Narrator'', style := Some ''Standard'',
                tone := Some ''Objective'', length_key := Some ''Standard''\<rparr>\<rparr>"

definition example_app :: "tree_item list \<Rightarrow> app" where
  "example_app items =
     \<lparr>rundown_tree = items, log_output = [], rundown_clock_label = [],
      recalculating_backtimes = False, message_boxes = [], rundown_tab_current = False\<rparr>"

definition example_now :: datetime where
  "example_now = (738899 * 86400 + 12 * 3600) * us_per_second"

section \<open>Properties of the time utilities\<close>

lemmas int_eval = parse_duration_string_def py_int_def int_body_def isdigit_def digit_val_def
  c_isspace_def int_max_str_digits_def

lemmas bt_eval = parse_backtime_string_def py_strip_def isspace_def strptime_time_def
  re_I_def re_H_def re_M_def re_S_def re_p_def re_colon_def two_digits_def one_digit_def
  isdigit_def digit_val_def lower_char_def hour_of_12_def

lemma parse_duration_string_examples:
  "parse_duration_string ''2:30'' = Inr (Some 150)"
  "parse_duration_string ''1:02:03'' = Inr (Some 3723)"
  "parse_duration_string ''99:99'' = Inr None"
  by (simp_all add: int_eval)

text \<open>
  Claim C3: \<^verbatim>\<open>parse_duration_string\<close> returns \<^verbatim>\<open>None\<close>, and never raises, for every
  input that is not a well-formed duration, a non-numeric token included.  The code
  converts the tokens before it enters its \<^verbatim>\<open>try\<close> block, so on a token that is not
  an integer (also the empty text) the \<^verbatim>\<open>ValueError\<close> leaves the function.
\<close>

theorem parse_duration_string_raises:
  "parse_duration_string ''abc'' = Inl ValueError
   \<and> parse_duration_string '''' = Inl ValueError
   \<and> parse_duration_string ''1:xx'' = Inl ValueError"
  by (simp add: int_eval)

text \<open>
  Claim C9, as stated: every duration that \<^verbatim>\<open>parse_duration_string\<close> accepts is
  nonnegative.  The leading component has no range check, and a minus sign is part of an
  integer: the text \<^verbatim>\<open>-1:30\<close> is accepted with the value \<open>-30\<close>.
\<close>

theorem parse_duration_negative:
  "parse_duration_string ''-1:30'' = Inr (Some (- 30))"
  by (simp add: int_eval)

lemma py_split_not_Nil: "py_split sep s \<noteq> []"
  by (induction s) (auto split: list.splits)

lemma map_int_hd:
  "map_int ts = Inr ns \<Longrightarrow> ts \<noteq> [] \<Longrightarrow> ns \<noteq> [] \<and> py_int (hd ts) = Inr (hd ns)"
  by (cases ts) (auto split: sum.splits)

text \<open>
  Claim C9, amended: for every text that \<^verbatim>\<open>parse_duration_string\<close> accepts, the number
  of seconds is nonnegative exactly when the leading component (the minutes of
  \<^verbatim>\<open>m:s\<close>, the hours of \<^verbatim>\<open>h:m:s\<close>) is nonnegative.
\<close>

theorem parse_duration_sign:
  assumes "parse_duration_string s = Inr (Some n)"
    and "py_int (hd (py_split CHR '':'' s)) = Inr lead"
  shows "0 \<le> n \<longleftrightarrow> 0 \<le> lead"
proof -
  from assms(1) obtain parts where p: "map_int (py_split CHR '':'' s) = Inr parts"
    by (auto simp: parse_duration_string_def split: sum.splits)
  from map_int_hd[OF p py_split_not_Nil] assms(2) have h: "parts \<noteq> []" "hd parts = lead"
    by auto
  from assms(1) p h show ?thesis
    by (auto simp: parse_duration_string_def split: list.splits if_splits)
qed

theorem parse_duration_sign_witness:
  "parse_duration_string ''2:30'' = Inr (Some 150)
   \<and> py_int (hd (py_split CHR '':'' ''2:30'')) = Inr 2
   \<and> ((0::int) \<le> 150 \<longleftrightarrow> (0::int) \<le> 2)"
proof -
  have a: "parse_duration_string ''2:30'' = Inr (Some 150)" by (simp add: int_eval)
  have b: "py_int (hd (py_split CHR '':'' ''2:30'')) = Inr 2" by (simp add: int_eval)
  from parse_duration_sign[OF a b] a b show ?thesis by simp
qed

text \<open>
  Claim C4, as stated: the outcome of \<^verbatim>\<open>parse_backtime_string\<close> on an empty text can
  be told from its outcome on a text that is not a time.  Both are \<^verbatim>\<open>None\<close>.
\<close>

theorem parse_backtime_absent_same_as_invalid:
  "parse_backtime_string '''' = parse_backtime_string ''not-a-time''"
  by (simp add: bt_eval)

text \<open>
  Claim C4, amended: \<^verbatim>\<open>parse_backtime_string\<close> returns \<^verbatim>\<open>None\<close> for every empty or
  whitespace-only text, and the same \<^verbatim>\<open>None\<close> for the text \<^verbatim>\<open>not-a-time\<close>; the
  function itself does not tell the two apart.
\<close>

theorem parse_backtime_None:
  assumes "py_strip s = []"
  shows "parse_backtime_string s = None \<and> parse_backtime_string ''not-a-time'' = None"
  using assms by (simp add: bt_eval)

theorem parse_backtime_None_witness:
  "py_strip ''  '' = [] \<and> parse_backtime_string ''  '' = None
   \<and> parse_backtime_string ''not-a-time'' = None"
proof -
  have a: "py_strip ''  '' = []" by (simp add: py_strip_def isspace_def)
  from parse_backtime_None[OF a] a show ?thesis by simp
qed

section \<open>Properties of the categorization\<close>

lemmas cat_eval = categorize_def py_lower_def lower_char_def startswith_def

text \<open>
  Claim C5, as stated: the feed named \<^verbatim>\<open>ESPN - Top\<close> gets the category Sports.  Its
  lowercased name has none of the keywords, so it gets Other.
\<close>

theorem categorize_espn:
  "categorize ''ESPN - Top'' = ''Other'' \<and> categorize ''ESPN - Top'' \<noteq> ''Sports''"
  by (simp add: cat_eval)

text \<open>
  Claim C5, amended: for every feed name the category is the first match of the keyword
  priority technology, sports, politics, (world or international), business,
  entertainment against the lowercased name, and Other without a match; the feed
  \<^verbatim>\<open>BBC News - World\<close> gets World News, and the feeds \<^verbatim>\<open>ESPN - Top\<close> and
  \<^verbatim>\<open>Hacker News\<close>, which have no keyword, get Other.
\<close>

theorem categorize_first_match:
  "categorize feed_name = first_keyword_match feed_name
   \<and> categorize ''BBC News - World'' = ''World News''
   \<and> categorize ''ESPN - Top'' = ''Other''
   \<and> categorize ''Hacker News'' = ''Other''"
proof -
  have "categorize feed_name = first_keyword_match feed_name"
    by (simp add: categorize_def first_keyword_match_def keyword_priority_def)
  moreover have "categorize ''BBC News - World'' = ''World News''" by (simp add: cat_eval)
  moreover have "categorize ''ESPN - Top'' = ''Other''" by (simp add: cat_eval)
  moreover have "categorize ''Hacker News'' = ''Other''" by (simp add: cat_eval)
  ultimately show ?thesis by simp
qed

section \<open>Properties of the scheduler\<close>

subsection \<open>What a pass leaves alone\<close>

lemma erase_backtime_text3: "erase_backtime (item\<lparr>text3 := x\<rparr>) = erase_backtime item"
  by (simp add: erase_backtime_def)

lemma second_pass_frame:
  "map erase_backtime (fst (snd (second_pass items t))) = map erase_backtime items"
proof (induction items arbitrary: t)
  case Nil
  show ?case by simp
next
  case (Cons item items)
  show ?case
  proof (cases "step_back t item")
    case (Inl e)
    then show ?thesis by simp
  next
    case (Inr t1)
    obtain r items' t2 where sp: "second_pass items t1 = (r, items', t2)"
      by (cases "second_pass items t1") auto
    with Cons[of t1] have "map erase_backtime items' = map erase_backtime items" by simp
    with Inr sp show ?thesis by (simp add: erase_backtime_text3)
  qed
qed



lemma calculate_backtimes_items:
  "map erase_backtime (rundown_tree (snd (calculate_backtimes now st))) = map erase_backtime (rundown_tree st)"
proof (cases "recalculating_backtimes st")
  case True
  then show ?thesis by (simp add: calculate_backtimes_def)
next
  case False
  obtain r1 n1 l1 where fp: "first_pass (rundown_tree st) 0 (log_output st) = (r1, n1, l1)"
    by (cases "first_pass (rundown_tree st) 0 (log_output st)") auto
  show ?thesis
  proof (cases r1)
    case (Some e)
    with False fp show ?thesis by (simp add: calculate_backtimes_def)
  next
    case None
    obtain r2 l2 where se: "show_end_time now (if rundown_tree st = [] then [] else text3 (last (rundown_tree st))) l1 = (r2, l2)"
      by (cases "show_end_time now (if rundown_tree st = [] then [] else text3 (last (rundown_tree st))) l1") auto
    show ?thesis
    proof (cases r2)
      case (Inl e)
      with False fp None se show ?thesis by (simp add: calculate_backtimes_def)
    next
      case (Inr end_time)
      obtain r3 items t3 where sp: "second_pass (rev (rundown_tree st)) end_time = (r3, items, t3)"
        by (cases "second_pass (rev (rundown_tree st)) end_time") auto
      from second_pass_frame[of "rev (rundown_tree st)" end_time] sp
      have "map erase_backtime items = map erase_backtime (rev (rundown_tree st))" by simp
      then have "map erase_backtime (rev items) = map erase_backtime (rundown_tree st)"
        by (simp add: rev_map[symmetric])
      with False fp None se Inr sp show ?thesis
        by (cases r3) (simp_all add: calculate_backtimes_def)
    qed
  qed
qed





subsection \<open>Concrete passes\<close>

lemmas dt_eval = timedelta_seconds_def datetime_add_def valid_datetime_def datetime_max_def
  us_per_day_def us_per_second_def replace_second_0_def today_at_def hour_of_def minute_of_def
  second_of_def two_digit_def digit_char_def hour12_def am_pm_def strftime_IMp_def
  strftime_IMSp_def

lemmas example_eval = example_app_def example_item_def example_story_def example_now_def

text \<open>
  Claim C1: a second pass of \<^verbatim>\<open>calculate_backtimes\<close> right after the first gives the
  same backtimes and the same clock label.  The pass reads column 3 of the last item as
  the end of the show and then writes into it the start of that item, at minute
  precision, so the next pass starts from an earlier end.  For one active item of 30
  seconds with no backtime yet, at 12:00:00: the first pass gives 12:29 PM and the label
  12:29:30 PM, the second pass 12:28 PM and 12:28:30 PM.
\<close>

theorem calculate_backtimes_drifts:
  "calculate_backtimes example_now (example_app [example_item ''A'' ''00:30'' ''''])
   = (None, (example_app [(example_item ''A'' ''00:30'' '''')\<lparr>text3 := ''12:29 PM''\<rparr>])
               \<lparr>rundown_clock_label := ''Backtime: 12:29:30 PM''\<rparr>)
   \<and> calculate_backtimes example_now
        ((example_app [(example_item ''A'' ''00:30'' '''')\<lparr>text3 := ''12:29 PM''\<rparr>])
               \<lparr>rundown_clock_label := ''Backtime: 12:29:30 PM''\<rparr>)
   = (None, (example_app [(example_item ''A'' ''00:30'' '''')\<lparr>text3 := ''12:28 PM''\<rparr>])
               \<lparr>rundown_clock_label := ''Backtime: 12:28:30 PM''\<rparr>)"
  by code_simp

text \<open>
  Claim C2, as stated: with durations 00:30, 01:00, 00:45 and the end of the show at
  6:00:00 PM the three segments get the backtimes 5:57:45 PM, 5:58:15 PM and 5:59:15 PM.
  Column 3 is written with \<^verbatim>\<open>%I:%M %p\<close>: the seconds of the clock are not in it.
\<close>

theorem backward_walk_minute_precision:
  "map text3 (rundown_tree (snd (calculate_backtimes example_now
      (example_app [example_item ''A'' ''00:30'' '''', example_item ''B'' ''01:00'' '''',
                    example_item ''C'' ''00:45'' ''06:00 PM'']))))
   = [''05:57 PM'', ''05:58 PM'', ''05:59 PM'']
   \<and> map text3 (rundown_tree (snd (calculate_backtimes example_now
      (example_app [example_item ''A'' ''00:30'' '''', example_item ''B'' ''01:00'' '''',
                    example_item ''C'' ''00:45'' ''06:00 PM'']))))
   \<noteq> [''05:57:45 PM'', ''05:58:15 PM'', ''05:59:15 PM'']"
  by code_simp

subsection \<open>The backward walk from 6:00:00 PM\<close>

lemma field_shift:
  fixes d m q x :: int
  assumes "d \<noteq> 0"
  shows "(x + d * (m * q)) div d mod m = x div d mod m"
proof -
  have "(x + (m * q) * d) div d = m * q + x div d"
    using assms by (rule div_mult_self1)
  then have "(x + d * (m * q)) div d = x div d + m * q"
    by (simp add: mult.commute add.commute)
  then show ?thesis by simp
qed

lemma us_per_day_eq: "us_per_day = 86400000000"
  by (simp add: us_per_day_def us_per_second_def)

lemma hour_of_shift: "hour_of (k * us_per_day + x) = hour_of x"
  unfolding hour_of_def us_per_second_def us_per_day_eq
  using field_shift[of 3600000000 x 24 k] by (simp add: add.commute mult.commute)

lemma minute_of_shift: "minute_of (k * us_per_day + x) = minute_of x"
  unfolding minute_of_def us_per_second_def us_per_day_eq
  using field_shift[of 60000000 x 60 "24 * k"] by (simp add: add.commute mult.commute)

lemma second_of_shift: "second_of (k * us_per_day + x) = second_of x"
  unfolding second_of_def us_per_second_def us_per_day_eq
  using field_shift[of 1000000 x 60 "1440 * k"] by (simp add: add.commute mult.commute)

lemma strftime_shift:
  "strftime_IMp (k * us_per_day + x) = strftime_IMp x"
  "strftime_IMSp (k * us_per_day + x) = strftime_IMSp x"
  by (simp_all add: strftime_IMp_def strftime_IMSp_def hour_of_shift minute_of_shift second_of_shift)


lemma step_back_active:
  assumes "get_active (data item)" and "parse_duration_string (text2 item) = Inr (Some n)"
    and "0 \<le> n" and "n < 86400"
    and "0 \<le> t - n * us_per_second" and "t \<le> datetime_max"
  shows "step_back t item = Inr (t - n * us_per_second)"
proof -
  from assms(3,4) have "n div 86400 = 0" by simp
  then have "timedelta_seconds n = Inr (n * us_per_second)"
    by (simp add: timedelta_seconds_def)
  moreover from assms(3,5,6) have "valid_datetime (t - n * us_per_second)"
    by (simp add: valid_datetime_def us_per_second_def)
  ultimately show ?thesis using assms(1,2)
    by (simp add: step_back_def item_duration_seconds_def datetime_add_def)
qed

lemma anchor_six_pm:
  assumes p: "parse_backtime_string s = Some \<lparr>hour = 18, minute = 0, second = 0\<rparr>"
    and v: "valid_datetime now" "valid_datetime (now + us_per_day)"
  shows "\<exists>k. 0 \<le> k \<and> k * us_per_day + 64800000000 \<le> datetime_max
             \<and> show_end_time now s lines = (Inr (k * us_per_day + 64800000000), lines)"
proof -
  from p have ne: "s \<noteq> []" by (auto simp: parse_backtime_string_def)
  define K where "K = now div us_per_day"
  have K0: "0 \<le> K" using v(1) by (simp add: K_def valid_datetime_def us_per_day_eq pos_imp_zdiv_nonneg_iff)
  have Kd: "K * us_per_day = now - now mod us_per_day"
    by (simp add: K_def minus_mod_eq_div_mult)
  have m: "0 \<le> now mod us_per_day" by (simp add: us_per_day_eq)
  have t: "today_at now \<lparr>hour = 18, minute = 0, second = 0\<rparr> = K * us_per_day + 64800000000"
    by (simp add: today_at_def Kd us_per_second_def)
  show ?thesis
  proof (cases "K * us_per_day + 64800000000 < now
                \<and> 3600 * us_per_second < now - (K * us_per_day + 64800000000)")
    case True
    have "valid_datetime (K * us_per_day + 64800000000 + us_per_day)"
      using True v(2) K0 by (simp add: valid_datetime_def us_per_day_eq)
    then have "show_end_time now s lines = (Inr ((K + 1) * us_per_day + 64800000000), lines)"
      using True ne p t by (simp add: show_end_time_def Let_def datetime_add_def algebra_simps)
    moreover have "(K + 1) * us_per_day + 64800000000 \<le> datetime_max"
      using True v(2) by (simp add: valid_datetime_def algebra_simps)
    ultimately show ?thesis using K0 by (intro exI[of _ "K + 1"]) simp
  next
    case False
    then have "show_end_time now s lines = (Inr (K * us_per_day + 64800000000), lines)"
      using ne p t by (auto simp: show_end_time_def Let_def)
    moreover have "K * us_per_day + 64800000000 \<le> datetime_max"
    proof -
      have "now + us_per_day \<le> datetime_max" using v(2) by (simp add: valid_datetime_def)
      moreover from Kd m have "K * us_per_day \<le> now" by linarith
      ultimately show ?thesis using us_per_day_eq by linarith
    qed
    ultimately show ?thesis using K0 by (intro exI[of _ K]) simp
  qed
qed

lemma strftime_six_pm:
  "strftime_IMp 64755000000 = ''05:59 PM''"
  "strftime_IMp 64695000000 = ''05:58 PM''"
  "strftime_IMp 64665000000 = ''05:57 PM''"
  "strftime_IMSp 64665000000 = ''05:57:45 PM''"
  by (simp_all add: dt_eval)

lemma walk_six_pm:
  assumes d: "text2 a = ''00:30''" "text2 b = ''01:00''" "text2 c = ''00:45''"
    and act: "get_active (data a)" "get_active (data b)" "get_active (data c)"
    and k: "0 \<le> k" "k * us_per_day + 64800000000 \<le> datetime_max"
  shows "second_pass [c, b, a] (k * us_per_day + 64800000000)
         = (None, [c\<lparr>text3 := ''05:59 PM''\<rparr>, b\<lparr>text3 := ''05:58 PM''\<rparr>,
                   a\<lparr>text3 := ''05:57 PM''\<rparr>], k * us_per_day + 64665000000)"
proof -
  have kd: "0 \<le> k * us_per_day" using k(1) by (simp add: us_per_day_eq)
  have pc: "parse_duration_string (text2 c) = Inr (Some 45)" by (simp add: d int_eval)
  have pb: "parse_duration_string (text2 b) = Inr (Some 60)" by (simp add: d int_eval)
  have pa: "parse_duration_string (text2 a) = Inr (Some 30)" by (simp add: d int_eval)
  have sc: "step_back (k * us_per_day + 64800000000) c = Inr (k * us_per_day + 64755000000)"
    using step_back_active[OF act(3) pc, of "k * us_per_day + 64800000000"] kd k(2)
    by (simp add: us_per_second_def)
  have sb: "step_back (k * us_per_day + 64755000000) b = Inr (k * us_per_day + 64695000000)"
    using step_back_active[OF act(2) pb, of "k * us_per_day + 64755000000"] kd k(2)
    by (simp add: us_per_second_def)
  have sa: "step_back (k * us_per_day + 64695000000) a = Inr (k * us_per_day + 64665000000)"
    using step_back_active[OF act(1) pa, of "k * us_per_day + 64695000000"] kd k(2)
    by (simp add: us_per_second_def)
  show ?thesis
    by (simp add: sc sb sa strftime_shift strftime_six_pm)
qed

lemma first_pass_six_pm:
  assumes d: "text2 a = ''00:30''" "text2 b = ''01:00''" "text2 c = ''00:45''"
  shows "first_pass [a, b, c] 0 lines = (None, (if get_active (data a) then 30 else 0)
     + (if get_active (data b) then 60 else 0) + (if get_active (data c) then 45 else 0), lines)"
proof -
  have pc: "parse_duration_string (text2 c) = Inr (Some 45)" by (simp add: d int_eval)
  have pb: "parse_duration_string (text2 b) = Inr (Some 60)" by (simp add: d int_eval)
  have pa: "parse_duration_string (text2 a) = Inr (Some 30)" by (simp add: d int_eval)
  show ?thesis by (simp add: pa pb pc)
qed

lemma clock_six_pm:
  "hour_of (k * us_per_day + 64800000000) = 18 \<and> minute_of (k * us_per_day + 64800000000) = 0
   \<and> second_of (k * us_per_day + 64800000000) = 0"
  "hour_of (k * us_per_day + 64755000000) = 17 \<and> minute_of (k * us_per_day + 64755000000) = 59
   \<and> second_of (k * us_per_day + 64755000000) = 15"
  "hour_of (k * us_per_day + 64695000000) = 17 \<and> minute_of (k * us_per_day + 64695000000) = 58
   \<and> second_of (k * us_per_day + 64695000000) = 15"
  "hour_of (k * us_per_day + 64665000000) = 17 \<and> minute_of (k * us_per_day + 64665000000) = 57
   \<and> second_of (k * us_per_day + 64665000000) = 45"
  unfolding hour_of_shift minute_of_shift second_of_shift
  by (simp_all add: hour_of_def minute_of_def second_of_def us_per_second_def)

lemma steps_six_pm:
  assumes d: "text2 a = ''00:30''" "text2 b = ''01:00''" "text2 c = ''00:45''"
    and act: "get_active (data a)" "get_active (data b)" "get_active (data c)"
    and k: "0 \<le> k" "k * us_per_day + 64800000000 \<le> datetime_max"
  shows "step_back (k * us_per_day + 64800000000) c = Inr (k * us_per_day + 64755000000)"
    and "step_back (k * us_per_day + 64755000000) b = Inr (k * us_per_day + 64695000000)"
    and "step_back (k * us_per_day + 64695000000) a = Inr (k * us_per_day + 64665000000)"
proof -
  have kd: "0 \<le> k * us_per_day" using k(1) by (simp add: us_per_day_eq)
  have pc: "parse_duration_string (text2 c) = Inr (Some 45)" by (simp add: d int_eval)
  have pb: "parse_duration_string (text2 b) = Inr (Some 60)" by (simp add: d int_eval)
  have pa: "parse_duration_string (text2 a) = Inr (Some 30)" by (simp add: d int_eval)
  show "step_back (k * us_per_day + 64800000000) c = Inr (k * us_per_day + 64755000000)"
    using step_back_active[OF act(3) pc, of "k * us_per_day + 64800000000"] kd k(2)
    by (simp add: us_per_second_def)
  show "step_back (k * us_per_day + 64755000000) b = Inr (k * us_per_day + 64695000000)"
    using step_back_active[OF act(2) pb, of "k * us_per_day + 64755000000"] kd k(2)
    by (simp add: us_per_second_def)
  show "step_back (k * us_per_day + 64695000000) a = Inr (k * us_per_day + 64665000000)"
    using step_back_active[OF act(1) pa, of "k * us_per_day + 64695000000"] kd k(2)
    by (simp add: us_per_second_def)
qed

text \<open>
  Claim C2, amended: for a rundown of three active segments with durations 00:30, 01:00
  and 00:45 whose last backtime text resolves to 6:00:00 PM, one pass (at any clock
  reading with a day of room in the calendar) starts the running clock at 6:00:00 PM and
  takes it back to 5:59:15 PM at segment 3 (45 seconds), to 5:58:15 PM at segment 2 (60
  seconds) and to 5:57:45 PM at segment 1 (30 seconds); each segment's backtime is the
  clock at that point written at minute precision (and the pass goes on from that clock,
  whatever segments are still to come), so segment 3 gets \<^verbatim>\<open>05:59 PM\<close>,
  segment 2 \<^verbatim>\<open>05:58 PM\<close>, segment 1 \<^verbatim>\<open>05:57 PM\<close>; the clock label, which has the
  seconds, becomes \<^verbatim>\<open>Backtime: 05:57:45 PM\<close>.  Nothing else changes.
\<close>

theorem backward_walk_six_pm:
  assumes tree: "rundown_tree st = [a, b, c]"
    and d: "text2 a = ''00:30''" "text2 b = ''01:00''" "text2 c = ''00:45''"
    and act: "get_active (data a)" "get_active (data b)" "get_active (data c)"
    and anchor: "parse_backtime_string (text3 c) = Some \<lparr>hour = 18, minute = 0, second = 0\<rparr>"
    and idle: "\<not> recalculating_backtimes st"
    and v: "valid_datetime now" "valid_datetime (now + us_per_day)"
  shows "\<exists>end_time t3 t2 t1.
           show_end_time now (text3 c) (log_output st) = (Inr end_time, log_output st)
         \<and> hour_of end_time = 18 \<and> minute_of end_time = 0 \<and> second_of end_time = 0
         \<and> step_back end_time c = Inr t3 \<and> t3 = end_time - 45 * us_per_second
         \<and> hour_of t3 = 17 \<and> minute_of t3 = 59 \<and> second_of t3 = 15
         \<and> step_back t3 b = Inr t2 \<and> t2 = t3 - 60 * us_per_second
         \<and> hour_of t2 = 17 \<and> minute_of t2 = 58 \<and> second_of t2 = 15
         \<and> step_back t2 a = Inr t1 \<and> t1 = t2 - 30 * us_per_second
         \<and> hour_of t1 = 17 \<and> minute_of t1 = 57 \<and> second_of t1 = 45
         \<and> second_pass (c # rest3) end_time
             = (case second_pass rest3 t3 of
                  (r, items', t') \<Rightarrow> (r, c\<lparr>text3 := strftime_IMp t3\<rparr> # items', t'))
         \<and> second_pass (b # rest2) t3
             = (case second_pass rest2 t2 of
                  (r, items', t') \<Rightarrow> (r, b\<lparr>text3 := strftime_IMp t2\<rparr> # items', t'))
         \<and> second_pass (a # rest1) t2
             = (case second_pass rest1 t1 of
                  (r, items', t') \<Rightarrow> (r, a\<lparr>text3 := strftime_IMp t1\<rparr> # items', t'))
         \<and> second_pass (rev (rundown_tree st)) end_time
             = (None, [c\<lparr>text3 := strftime_IMp t3\<rparr>, b\<lparr>text3 := strftime_IMp t2\<rparr>,
                       a\<lparr>text3 := strftime_IMp t1\<rparr>], t1)
         \<and> strftime_IMp t3 = ''05:59 PM'' \<and> strftime_IMp t2 = ''05:58 PM''
         \<and> strftime_IMp t1 = ''05:57 PM'' \<and> strftime_IMSp t1 = ''05:57:45 PM''
         \<and> calculate_backtimes now st
             = (None, st\<lparr>rundown_tree := [a\<lparr>text3 := ''05:57 PM''\<rparr>, b\<lparr>text3 := ''05:58 PM''\<rparr>,
                                           c\<lparr>text3 := ''05:59 PM''\<rparr>],
                          rundown_clock_label := ''Backtime: 05:57:45 PM''\<rparr>)"
proof -
  from anchor_six_pm[OF anchor v, of "log_output st"] obtain k where
    k: "0 \<le> k" "k * us_per_day + 64800000000 \<le> datetime_max"
    and se: "show_end_time now (text3 c) (log_output st)
             = (Inr (k * us_per_day + 64800000000), log_output st)"
    by blast
  let ?e = "k * us_per_day + 64800000000"
  let ?t3 = "k * us_per_day + 64755000000"
  let ?t2 = "k * us_per_day + 64695000000"
  let ?t1 = "k * us_per_day + 64665000000"
  note steps = steps_six_pm[OF d act k]
  have diffs: "?t3 = ?e - 45 * us_per_second" "?t2 = ?t3 - 60 * us_per_second"
    "?t1 = ?t2 - 30 * us_per_second"
    by (simp_all add: us_per_second_def)
  have texts: "strftime_IMp ?t3 = ''05:59 PM''" "strftime_IMp ?t2 = ''05:58 PM''"
    "strftime_IMp ?t1 = ''05:57 PM''" "strftime_IMSp ?t1 = ''05:57:45 PM''"
    by (simp_all add: strftime_shift strftime_six_pm)
  have fp: "first_pass (rundown_tree st) 0 (log_output st) = (None, 135, log_output st)"
    using first_pass_six_pm[OF d, of "log_output st"] act by (simp add: tree)
  have lst: "(if rundown_tree st = [] then [] else text3 (last (rundown_tree st))) = text3 c"
    by (simp add: tree)
  have sp0: "second_pass (rev (rundown_tree st)) ?e
            = (None, [c\<lparr>text3 := ''05:59 PM''\<rparr>, b\<lparr>text3 := ''05:58 PM''\<rparr>,
                      a\<lparr>text3 := ''05:57 PM''\<rparr>], ?t1)"
    using walk_six_pm[OF d act k] by (simp only: tree rev.simps append.simps)
  have sp: "second_pass (rev (rundown_tree st)) ?e
            = (None, [c\<lparr>text3 := strftime_IMp ?t3\<rparr>, b\<lparr>text3 := strftime_IMp ?t2\<rparr>,
                      a\<lparr>text3 := strftime_IMp ?t1\<rparr>], ?t1)"
    by (simp only: sp0 texts)
  have cb: "calculate_backtimes now st
            = (None, st\<lparr>rundown_tree := [a\<lparr>text3 := ''05:57 PM''\<rparr>, b\<lparr>text3 := ''05:58 PM''\<rparr>,
                                          c\<lparr>text3 := ''05:59 PM''\<rparr>],
                         rundown_clock_label := ''Backtime: 05:57:45 PM''\<rparr>)"
    using idle by (simp add: calculate_backtimes_def fp lst se sp0 strftime_shift strftime_six_pm)
  have conts:
    "second_pass (c # rest3) ?e
     = (case second_pass rest3 ?t3 of
          (r, items', t') \<Rightarrow> (r, c\<lparr>text3 := strftime_IMp ?t3\<rparr> # items', t'))"
    "second_pass (b # rest2) ?t3
     = (case second_pass rest2 ?t2 of
          (r, items', t') \<Rightarrow> (r, b\<lparr>text3 := strftime_IMp ?t2\<rparr> # items', t'))"
    "second_pass (a # rest1) ?t2
     = (case second_pass rest1 ?t1 of
          (r, items', t') \<Rightarrow> (r, a\<lparr>text3 := strftime_IMp ?t1\<rparr> # items', t'))"
    by (simp_all only: second_pass.simps steps sum.case)
  from se clock_six_pm[of k] steps diffs conts sp texts cb show ?thesis
    by (intro exI[of _ ?e] exI[of _ ?t3] exI[of _ ?t2] exI[of _ ?t1]) (simp only: simp_thms)
qed

theorem backward_walk_six_pm_witness:
  "show_end_time example_now ''06:00 PM'' [] = (Inr (example_now + 21600 * us_per_second), [])
   \<and> step_back (example_now + 21600 * us_per_second) (example_item ''C'' ''00:45'' ''06:00 PM'')
       = Inr (example_now + 21555 * us_per_second)
   \<and> step_back (example_now + 21555 * us_per_second) (example_item ''B'' ''01:00'' '''')
       = Inr (example_now + 21495 * us_per_second)
   \<and> step_back (example_now + 21495 * us_per_second) (example_item ''A'' ''00:30'' '''')
       = Inr (example_now + 21465 * us_per_second)
   \<and> hour_of (example_now + 21555 * us_per_second) = 17
   \<and> minute_of (example_now + 21555 * us_per_second) = 59
   \<and> second_of (example_now + 21555 * us_per_second) = 15
   \<and> calculate_backtimes example_now
     (example_app [example_item ''A'' ''00:30'' '''', example_item ''B'' ''01:00'' '''',
                   example_item ''C'' ''00:45'' ''06:00 PM''])
   = (None, (example_app [(example_item ''A'' ''00:30'' '''')\<lparr>text3 := ''05:57 PM''\<rparr>,
                          (example_item ''B'' ''01:00'' '''')\<lparr>text3 := ''05:58 PM''\<rparr>,
                          (example_item ''C'' ''00:45'' ''06:00 PM'')\<lparr>text3 := ''05:59 PM''\<rparr>])
               \<lparr>rundown_clock_label := ''Backtime: 05:57:45 PM''\<rparr>)"
proof -
  let ?a = "example_item ''A'' ''00:30'' ''''"
  let ?b = "example_item ''B'' ''01:00'' ''''"
  let ?c = "example_item ''C'' ''00:45'' ''06:00 PM''"
  have tree: "rundown_tree (example_app [?a, ?b, ?c]) = [?a, ?b, ?c]"
    by (simp add: example_app_def)
  have d: "text2 ?a = ''00:30''" "text2 ?b = ''01:00''" "text2 ?c = ''00:45''"
    by (simp_all add: example_item_def)
  have act: "get_active (data ?a)" "get_active (data ?b)" "get_active (data ?c)"
    by (simp_all add: example_item_def get_active_def)
  have anchor: "parse_backtime_string (text3 ?c) = Some \<lparr>hour = 18, minute = 0, second = 0\<rparr>"
    by (simp add: example_item_def bt_eval)
  have idle: "\<not> recalculating_backtimes (example_app [?a, ?b, ?c])"
    by (simp add: example_app_def)
  have v: "valid_datetime example_now" "valid_datetime (example_now + us_per_day)"
    by (simp_all add: example_now_def valid_datetime_def datetime_max_def us_per_day_def
        us_per_second_def)
  have t3c: "text3 ?c = ''06:00 PM''" by (simp add: example_item_def)
  have lg: "log_output (example_app [?a, ?b, ?c]) = []" by (simp add: example_app_def)
  have e: "show_end_time example_now ''06:00 PM'' []
           = (Inr (example_now + 21600 * us_per_second), [])"
    by code_simp
  from backward_walk_six_pm[OF tree d act anchor idle v] obtain end_time t3 t2 t1 where
    w: "show_end_time example_now (text3 ?c) (log_output (example_app [?a, ?b, ?c]))
          = (Inr end_time, log_output (example_app [?a, ?b, ?c]))"
      "step_back end_time ?c = Inr t3" "t3 = end_time - 45 * us_per_second"
      "hour_of t3 = 17" "minute_of t3 = 59" "second_of t3 = 15"
      "step_back t3 ?b = Inr t2" "t2 = t3 - 60 * us_per_second"
      "step_back t2 ?a = Inr t1" "t1 = t2 - 30 * us_per_second"
      "calculate_backtimes example_now (example_app [?a, ?b, ?c])
       = (None, (example_app [?a, ?b, ?c])
                  \<lparr>rundown_tree := [?a\<lparr>text3 := ''05:57 PM''\<rparr>, ?b\<lparr>text3 := ''05:58 PM''\<rparr>,
                                     ?c\<lparr>text3 := ''05:59 PM''\<rparr>],
                   rundown_clock_label := ''Backtime: 05:57:45 PM''\<rparr>)"
    by blast
  from w(1) e have et: "end_time = example_now + 21600 * us_per_second"
    by (simp add: t3c lg)
  have t3: "t3 = example_now + 21555 * us_per_second"
    using w(3) et by (simp add: us_per_second_def)
  have t2: "t2 = example_now + 21495 * us_per_second"
    using w(8) t3 by (simp add: us_per_second_def)
  have t1: "t1 = example_now + 21465 * us_per_second"
    using w(10) t2 by (simp add: us_per_second_def)
  from w(2,4,5,6,7,9) have
    "step_back (example_now + 21600 * us_per_second) ?c = Inr (example_now + 21555 * us_per_second)"
    "step_back (example_now + 21555 * us_per_second) ?b = Inr (example_now + 21495 * us_per_second)"
    "step_back (example_now + 21495 * us_per_second) ?a = Inr (example_now + 21465 * us_per_second)"
    "hour_of (example_now + 21555 * us_per_second) = 17"
    "minute_of (example_now + 21555 * us_per_second) = 59"
    "second_of (example_now + 21555 * us_per_second) = 15"
    unfolding et t3 t2 t1 by blast+
  moreover from w(11) have "calculate_backtimes example_now (example_app [?a, ?b, ?c])
   = (None, (example_app [?a\<lparr>text3 := ''05:57 PM''\<rparr>, ?b\<lparr>text3 := ''05:58 PM''\<rparr>,
                          ?c\<lparr>text3 := ''05:59 PM''\<rparr>])
               \<lparr>rundown_clock_label := ''Backtime: 05:57:45 PM''\<rparr>)"
    by (simp add: example_app_def)
  ultimately show ?thesis using e by blast
qed

section \<open>Properties of the rundown store\<close>

subsection \<open>Sending stories to the rundown\<close>






















subsection \<open>Reordering\<close>

text \<open>
  Claim C7, as stated: an in-bounds move preserves every field of every segment, the
  backtime included, and recomputes nothing.  The move ends with a scheduler pass: moving
  the second of two segments up changes the backtimes 05:59 PM and 06:00 PM into
  05:58 PM and 05:57 PM.
\<close>

theorem move_rewrites_backtimes:
  "fst (move_rundown_item example_now 1 (- 1)
     (example_app [example_item ''A'' ''00:30'' ''05:59 PM'', example_item ''B'' ''01:00'' ''06:00 PM''])) = None
   \<and> map text0 (rundown_tree (snd (move_rundown_item example_now 1 (- 1)
     (example_app [example_item ''A'' ''00:30'' ''05:59 PM'', example_item ''B'' ''01:00'' ''06:00 PM''])))) = [''B'', ''A'']
   \<and> map text3 (rundown_tree (snd (move_rundown_item example_now 1 (- 1)
     (example_app [example_item ''A'' ''00:30'' ''05:59 PM'', example_item ''B'' ''01:00'' ''06:00 PM''])))) = [''05:57 PM'', ''05:58 PM'']"
  by code_simp

lemma move_down_swap:
  assumes "Suc r < length xs"
  shows "take (Suc r) (take r xs @ drop (Suc r) xs) @ [xs ! r] @ drop (Suc r) (take r xs @ drop (Suc r) xs)
         = xs[r := xs ! Suc r, Suc r := xs ! r]"
proof -
  from assms have "xs = take r xs @ xs ! r # xs ! Suc r # drop (Suc (Suc r)) xs"
    by (simp add: Cons_nth_drop_Suc id_take_nth_drop[symmetric] Suc_lessD)
  then obtain as x y bs where xs: "xs = as @ x # y # bs" and l: "length as = r"
    using assms by (metis Suc_lessD length_take less_imp_le_nat min.absorb2)
  show ?thesis by (simp add: xs l[symmetric] nth_append list_update_append)
qed

lemma move_up_swap:
  assumes "Suc q < length xs"
  shows "take q (take (Suc q) xs @ drop (Suc (Suc q)) xs) @ [xs ! Suc q] @ drop q (take (Suc q) xs @ drop (Suc (Suc q)) xs)
         = xs[Suc q := xs ! q, q := xs ! Suc q]"
proof -
  from assms have "xs = take q xs @ xs ! q # xs ! Suc q # drop (Suc (Suc q)) xs"
    by (simp add: Cons_nth_drop_Suc id_take_nth_drop[symmetric] Suc_lessD)
  then obtain as x y bs where xs: "xs = as @ x # y # bs" and l: "length as = q"
    using assms by (metis Suc_lessD length_take less_imp_le_nat min.absorb2)
  show ?thesis by (simp add: xs l[symmetric] nth_append list_update_append)
qed


lemma erase_rebuilt:
  assumes "in_sync item" and "backtime (data item) = Some b"
  shows "erase_backtime \<lparr>text0 = title (data item), text1 = source (data item), text2 = text2 item,
            text3 = b, text4 = text4 item, checked5 = checked5 item, data = data item\<rparr>
         = erase_backtime item"
  using assms by (simp add: erase_backtime_def in_sync_def)

lemma move_in_bounds_items:
  assumes row: "current_row < length (rundown_tree st)"
    and lo: "0 \<le> int current_row + direction"
    and hi: "int current_row + direction < int (length (rundown_tree st))"
    and sync: "in_sync (rundown_tree st ! current_row)"
  shows "map erase_backtime (rundown_tree (snd (move_rundown_item now current_row direction st)))
         = take (nat (int current_row + direction))
             (take current_row (map erase_backtime (rundown_tree st))
              @ drop (Suc current_row) (map erase_backtime (rundown_tree st)))
           @ [map erase_backtime (rundown_tree st) ! current_row]
           @ drop (nat (int current_row + direction))
               (take current_row (map erase_backtime (rundown_tree st))
                @ drop (Suc current_row) (map erase_backtime (rundown_tree st)))"
proof -
  let ?item = "rundown_tree st ! current_row"
  from sync obtain b where b: "backtime (data ?item) = Some b"
    by (auto simp: in_sync_def)
  from sync have keys: "duration (data ?item) = Some (text2 ?item)"
    "profile (data ?item) = Some (text4 ?item)" "active (data ?item) = Some (checked5 ?item)"
    by (simp_all add: in_sync_def)
  let ?taken = "take current_row (rundown_tree st) @ drop (Suc current_row) (rundown_tree st)"
  let ?new = "\<lparr>text0 = title (data ?item), text1 = source (data ?item), text2 = text2 ?item,
            text3 = b, text4 = text4 ?item, checked5 = checked5 ?item, data = data ?item\<rparr>"
  let ?n = "nat (int current_row + direction)"
  have m: "move_rundown_item now current_row direction st
           = calculate_backtimes now (st\<lparr>rundown_tree := take ?n ?taken @ [?new] @ drop ?n ?taken\<rparr>)"
    using lo hi by (simp add: move_rundown_item_def Let_def b keys)
  have "map erase_backtime (rundown_tree (snd (move_rundown_item now current_row direction st)))
        = map erase_backtime (take ?n ?taken @ [?new] @ drop ?n ?taken)"
    unfolding m by (simp add: calculate_backtimes_items)
  also have "\<dots> = take ?n (map erase_backtime ?taken) @ [erase_backtime ?new]
                    @ drop ?n (map erase_backtime ?taken)"
    by (simp add: take_map drop_map)
  also have "erase_backtime ?new = map erase_backtime (rundown_tree st) ! current_row"
    using erase_rebuilt[OF sync b] row by simp
  also have "map erase_backtime ?taken
             = take current_row (map erase_backtime (rundown_tree st))
               @ drop (Suc current_row) (map erase_backtime (rundown_tree st))"
    by (simp add: take_map drop_map)
  finally show ?thesis .
qed

text \<open>
  Claim C7, amended: for every rundown and every in-bounds move by one row of a segment
  whose columns agree with its dictionary, the moved segment and its neighbour trade
  places, and the title, source, duration, profile, active flag and dictionary of every
  segment are kept verbatim; only the backtime column is rewritten, by the scheduler pass
  that the move runs.
\<close>

theorem move_preserves_content:
  assumes row: "current_row < length (rundown_tree st)"
    and dir: "direction = 1 \<or> direction = - 1"
    and lo: "0 \<le> int current_row + direction"
    and hi: "int current_row + direction < int (length (rundown_tree st))"
    and sync: "in_sync (rundown_tree st ! current_row)"
  shows "map erase_backtime (rundown_tree (snd (move_rundown_item now current_row direction st)))
         = (map erase_backtime (rundown_tree st))
             [current_row := map erase_backtime (rundown_tree st) ! nat (int current_row + direction),
              nat (int current_row + direction) := map erase_backtime (rundown_tree st) ! current_row]"
proof -
  let ?e = "map erase_backtime (rundown_tree st)"
  note items = move_in_bounds_items[OF row lo hi sync, of now]
  from dir show ?thesis
  proof
    assume d: "direction = 1"
    then have n: "nat (int current_row + direction) = Suc current_row" by simp
    from hi d have "Suc current_row < length ?e" by simp
    from move_down_swap[OF this] show ?thesis unfolding items unfolding n .
  next
    assume d: "direction = - 1"
    with lo obtain q where q: "current_row = Suc q" by (cases current_row) auto
    with d have n: "nat (int current_row + direction) = q" by simp
    from row q have "Suc q < length ?e" by simp
    from move_up_swap[OF this] show ?thesis unfolding items unfolding n unfolding q .
  qed
qed

theorem move_preserves_content_witness:
  "map erase_backtime (rundown_tree (snd (move_rundown_item example_now 1 (- 1)
     (example_app [example_item ''A'' ''00:30'' ''05:59 PM'', example_item ''B'' ''01:00'' ''06:00 PM'']))))
   = [erase_backtime (example_item ''B'' ''01:00'' ''06:00 PM''),
      erase_backtime (example_item ''A'' ''00:30'' ''05:59 PM'')]"
proof -
  let ?st = "example_app [example_item ''A'' ''00:30'' ''05:59 PM'', example_item ''B'' ''01:00'' ''06:00 PM'']"
  have row: "1 < length (rundown_tree ?st)" by (simp add: example_app_def)
  have dir: "(- 1 :: int) = 1 \<or> (- 1 :: int) = - 1" by simp
  have lo: "0 \<le> int 1 + (- 1)" by simp
  have hi: "int 1 + (- 1) < int (length (rundown_tree ?st))" by (simp add: example_app_def)
  have sync: "in_sync (rundown_tree ?st ! 1)" by (simp add: in_sync_def example_eval)
  from move_preserves_content[OF row dir lo hi sync, of example_now]
  show ?thesis by (simp add: example_app_def)
qed

text \<open>
  Claim C8, as stated: a move with the target row outside the tree returns false.  The
  function returns nothing: the call evaluates to \<^verbatim>\<open>None\<close>, which is not
  \<^verbatim>\<open>False\<close>, and it is the value of a completed move as well (here the first row moved
  up, which is out of bounds, and the second row moved up, which is carried out).
\<close>

theorem move_returns_none:
  "move_rundown_item_value example_now 0 (- 1)
     (example_app [example_item ''A'' ''00:30'' ''05:59 PM'', example_item ''B'' ''01:00'' ''06:00 PM''])
   = Some PyNone
   \<and> PyNone \<noteq> PyBool False
   \<and> move_rundown_item_value example_now 1 (- 1)
       (example_app [example_item ''A'' ''00:30'' ''05:59 PM'', example_item ''B'' ''01:00'' ''06:00 PM''])
     = Some PyNone"
  by code_simp

lemma move_rundown_item_value_not_bool:
  "move_rundown_item_value now current_row direction st \<noteq> Some (PyBool ok)"
  by (simp add: move_rundown_item_value_def split: option.splits)

text \<open>
  Claim C8, amended: \<^verbatim>\<open>move_rundown_item\<close> with a target row outside the tree (the
  first item moved up, the last moved down) is a no-op: it raises nothing and leaves the
  state, so the order, the length and every field of every segment, as it was.  It reports
  no result: the call evaluates to \<^verbatim>\<open>None\<close>, which tests false, and no call of the
  function evaluates to a truth value.
\<close>

theorem move_out_of_bounds:
  assumes "\<not> (0 \<le> int current_row + direction
              \<and> int current_row + direction < int (length (rundown_tree st)))"
  shows "move_rundown_item now current_row direction st = (None, st)
       \<and> move_rundown_item_value now current_row direction st = Some PyNone
       \<and> \<not> py_truth PyNone
       \<and> move_rundown_item_value now' row' direction' st' \<noteq> Some (PyBool ok)"
proof -
  have "move_rundown_item now current_row direction st = (None, st)"
    using assms by (auto simp: move_rundown_item_def Let_def)
  moreover from this have "move_rundown_item_value now current_row direction st = Some PyNone"
    by (simp add: move_rundown_item_value_def)
  moreover have "\<not> py_truth PyNone" by (simp add: py_truth_def)
  moreover note move_rundown_item_value_not_bool[of now' row' direction' st' ok]
  ultimately show ?thesis by blast
qed

theorem move_out_of_bounds_witness:
  "\<not> (0 \<le> int 0 + (- 1)
        \<and> int 0 + (- 1) < int (length (rundown_tree (example_app
             [example_item ''A'' ''00:30'' ''05:59 PM'', example_item ''B'' ''01:00'' ''06:00 PM'']))))
   \<and> move_rundown_item example_now 0 (- 1)
        (example_app [example_item ''A'' ''00:30'' ''05:59 PM'', example_item ''B'' ''01:00'' ''06:00 PM''])
      = (None, example_app [example_item ''A'' ''00:30'' ''05:59 PM'', example_item ''B'' ''01:00'' ''06:00 PM''])
   \<and> move_rundown_item example_now 1 1
        (example_app [example_item ''A'' ''00:30'' ''05:59 PM'', example_item ''B'' ''01:00'' ''06:00 PM''])
      = (None, example_app [example_item ''A'' ''00:30'' ''05:59 PM'', example_item ''B'' ''01:00'' ''06:00 PM''])
   \<and> move_rundown_item_value example_now 0 (- 1)
        (example_app [example_item ''A'' ''00:30'' ''05:59 PM'', example_item ''B'' ''01:00'' ''06:00 PM''])
      = Some PyNone"
  using move_out_of_bounds[of 0 "- 1"
      "example_app [example_item ''A'' ''00:30'' ''05:59 PM'', example_item ''B'' ''01:00'' ''06:00 PM'']"
      example_now]
    move_out_of_bounds[of 1 1
      "example_app [example_item ''A'' ''00:30'' ''05:59 PM'', example_item ''B'' ''01:00'' ''06:00 PM'']"
      example_now]
  by (simp add: example_app_def)

end
